theory Spec2Isabelle
  imports Complex_Main
begin

section \<open>JavaScript values, exceptions and the fetch interface\<close>

text \<open>
  The front end (\<^verbatim>\<open>src/services/api.ts\<close>, \<^verbatim>\<open>App.tsx\<close> and the components) talks to its
  collaborators only through \<^verbatim>\<open>fetch\<close>. A parsed JSON document is a value of \<open>json\<close>
  (\<open>JObj\<close> lists an object's properties, each key once), a thrown value is \<open>thrown\<close>, and
  a promise that may reject is a sum with \<open>Inl\<close> for the rejection. Numbers are restricted
  to the integers that a JavaScript number holds exactly and prints in full, those of
  magnitude below \<open>2 ^ 53\<close>; a \<open>JNum\<close> beyond that stands for no JSON document.
\<close>

datatype json =
    JNull
  | JBool bool
  | JNum int
  | JStr string
  | JArr "json list"
  | JObj "(string \<times> json) list"

text \<open>\<open>ErrorObj name message\<close> is a value with \<^verbatim>\<open>instanceof Error\<close>; anything else thrown
  is \<open>NonError\<close>.\<close>

datatype thrown =
    ErrorObj string string
  | NonError json

text \<open>Truthiness of a property read; \<open>None\<close> is \<^verbatim>\<open>undefined\<close>.\<close>

fun truthy :: "json option \<Rightarrow> bool" where
  "truthy None = False"
| "truthy (Some JNull) = False"
| "truthy (Some (JBool b)) = b"
| "truthy (Some (JNum n)) = (n \<noteq> 0)"
| "truthy (Some (JStr s)) = (s \<noteq> [])"
| "truthy (Some (JArr xs)) = True"
| "truthy (Some (JObj kvs)) = True"

text \<open>\<^verbatim>\<open>data.key\<close>: a TypeError on \<^verbatim>\<open>null\<close> (the message is V8's), \<^verbatim>\<open>undefined\<close> on a value
  without that property.\<close>

fun get_prop :: "json \<Rightarrow> string \<Rightarrow> thrown + json option" where
  "get_prop JNull k =
     Inl (ErrorObj ''TypeError''
       (''Cannot read properties of null (reading '' @ [CHR 0x27] @ k @ [CHR 0x27] @ '')''))"
| "get_prop (JObj kvs) k = Inr (map_of kvs k)"
| "get_prop (JBool b) k = Inr None"
| "get_prop (JNum n) k = Inr None"
| "get_prop (JStr s) k = Inr None"
| "get_prop (JArr xs) k = Inr None"

text \<open>\<^verbatim>\<open>String.prototype.includes\<close>.\<close>

fun str_includes :: "string \<Rightarrow> string \<Rightarrow> bool" where
  "str_includes [] sub = (sub = [])"
| "str_includes (c # cs) sub = (take (length sub) (c # cs) = sub \<or> str_includes cs sub)"

text \<open>Decimal rendering of a number inside a template literal.\<close>

definition digit_char :: "nat \<Rightarrow> char" where
  "digit_char d = ''0123456789'' ! (d mod 10)"

function show_nat :: "nat \<Rightarrow> string" where
  "show_nat n = (if n < 10 then [digit_char n] else show_nat (n div 10) @ [digit_char n])"
  by pat_completeness auto
termination
  by (relation "measure (\<lambda>n. n)") auto

definition show_int :: "int \<Rightarrow> string" where
  "show_int i = (if i < 0 then CHR ''-'' # show_nat (nat (- i)) else show_nat (nat i))"

fun join :: "string \<Rightarrow> string list \<Rightarrow> string" where
  "join sep [] = []"
| "join sep [x] = x"
| "join sep (x # y # ys) = x @ sep @ join sep (y # ys)"

text \<open>\<^verbatim>\<open>String(v)\<close>, as the \<^verbatim>\<open>Error\<close> constructor applies it to its message. A number is
  printed with all its digits, which is what JavaScript does below \<open>10 ^ 21\<close>, so for
  every number of the range above.\<close>

fun js_string :: "json \<Rightarrow> string" where
  "js_string JNull = ''null''"
| "js_string (JBool b) = (if b then ''true'' else ''false'')"
| "js_string (JNum n) = show_int n"
| "js_string (JStr s) = s"
| "js_string (JArr xs) =
     join '','' (map (\<lambda>x. case x of JNull \<Rightarrow> [] | _ \<Rightarrow> js_string x) xs)"
| "js_string (JObj kvs) = ''[object Object]''"

text \<open>A \<^verbatim>\<open>Response\<close>: \<^verbatim>\<open>ok\<close>, \<^verbatim>\<open>status\<close>, and what \<^verbatim>\<open>response.json()\<close> settles to.\<close>

record response =
  resp_ok :: bool
  resp_status :: nat
  resp_json :: "thrown + json"

text \<open>The \<^verbatim>\<open>RequestInit\<close> passed by the callers; \<open>req_body\<close> is the value given to
  \<^verbatim>\<open>JSON.stringify\<close>.\<close>

record request_init =
  req_method :: string
  req_headers :: "(string \<times> string) list"
  req_body :: "json option"

record fetch_call =
  call_url :: string
  call_init :: "request_init option"
  call_timeout_ms :: "nat option"

text \<open>
  \<open>call_timeout_ms\<close> is the \<^verbatim>\<open>AbortSignal.timeout\<close> passed as \<^verbatim>\<open>signal\<close>, if any. The network
  answers the \<open>k\<close>-th call; the list \<open>sent\<close> holds the calls issued so far. A call that
  runs into its timeout settles as a rejection with an \<^verbatim>\<open>Error\<close> named \<^verbatim>\<open>TimeoutError\<close>.
\<close>

type_synonym network = "nat \<Rightarrow> fetch_call \<Rightarrow> thrown + response"

definition fetch :: "network \<Rightarrow> fetch_call \<Rightarrow> fetch_call list \<Rightarrow> (thrown + response) \<times> fetch_call list" where
  "fetch net c sent = (net (length sent) c, sent @ [c])"

section \<open>\<^verbatim>\<open>src/services/api.ts\<close>\<close>

text \<open>
  \<^verbatim>\<open>API_BASE_URL\<close> is read from the environment when the module is loaded: the functions
  below take it as an argument. Each returns its result together with the calls issued.
\<close>

definition timeout_message :: string where
  "timeout_message = ''Request timed out. Please check if the backend server is running.''"

definition connect_message :: string where
  "connect_message =
     ''Cannot connect to backend server. Please ensure the backend is running on http://localhost:5000''"

text \<open>The body of the \<^verbatim>\<open>try\<close> of \<^verbatim>\<open>fetchWithErrorHandling\<close>, given what \<^verbatim>\<open>fetch\<close> settled to.\<close>

definition try_block :: "thrown + response \<Rightarrow> thrown + response" where
  "try_block settled =
     (case settled of
        Inl e \<Rightarrow> Inl e
      | Inr response \<Rightarrow>
          if \<not> resp_ok response then
            (let errorData =
               (case resp_json response of
                  Inl _ \<Rightarrow> JObj [(''error'', JStr ''Unknown error'')]
                | Inr d \<Rightarrow> d)
             in case get_prop errorData ''error'' of
                  Inl e \<Rightarrow> Inl e
                | Inr v \<Rightarrow>
                    Inl (ErrorObj ''Error''
                      (if truthy v then js_string (the v)
                       else ''HTTP error! status: '' @ show_nat (resp_status response))))
          else Inr response)"

definition catch_block :: "thrown \<Rightarrow> thrown" where
  "catch_block error =
     (case error of
        ErrorObj name message \<Rightarrow>
          if name = ''AbortError'' \<or> name = ''TimeoutError'' then ErrorObj ''Error'' timeout_message
          else if str_includes message ''Failed to fetch'' \<or> str_includes message ''NetworkError''
          then ErrorObj ''Error'' connect_message
          else error
      | NonError v \<Rightarrow> error)"

definition timed_call :: "string \<Rightarrow> request_init option \<Rightarrow> fetch_call" where
  "timed_call url options = \<lparr>call_url = url, call_init = options, call_timeout_ms = Some 10000\<rparr>"

definition fetchWithErrorHandling ::
  "network \<Rightarrow> string \<Rightarrow> request_init option \<Rightarrow> fetch_call list \<Rightarrow> (thrown + response) \<times> fetch_call list" where
  "fetchWithErrorHandling net url options sent =
     (let (settled, sent') = fetch net (timed_call url options) sent
      in (case try_block settled of
            Inl error \<Rightarrow> Inl (catch_block error)
          | Inr response \<Rightarrow> Inr response,
          sent'))"

record GenerateRequest =
  gr_character :: string
  gr_pose :: string
  gr_style :: string

definition generateSprite_prompt :: "GenerateRequest \<Rightarrow> string" where
  "generateSprite_prompt request =
     ''Generate a sprite of '' @ gr_character request
     @ (if gr_pose request \<noteq> [] then '' in '' @ gr_pose request @ '' pose'' else [])
     @ (if gr_style request \<noteq> [] then '' with '' @ gr_style request @ '' style'' else [])
     @ ''. High quality, detailed sprite art, game character design.''"

definition json_post :: "json \<Rightarrow> request_init" where
  "json_post b =
     \<lparr>req_method = ''POST'', req_headers = [(''Content-Type'', ''application/json'')],
      req_body = Some b\<rparr>"

definition generateSprite ::
  "network \<Rightarrow> string \<Rightarrow> GenerateRequest \<Rightarrow> fetch_call list \<Rightarrow> (thrown + json) \<times> fetch_call list" where
  "generateSprite net API_BASE_URL request sent =
     (let prompt = generateSprite_prompt request;
          (r, sent') = fetchWithErrorHandling net (API_BASE_URL @ ''/image'')
                        (Some (json_post (JObj [(''prompt'', JStr prompt)]))) sent
      in (case r of Inl e \<Rightarrow> Inl e | Inr response \<Rightarrow> resp_json response, sent'))"

text \<open>The one call \<^verbatim>\<open>generateSprite\<close> passes to \<^verbatim>\<open>fetch\<close>, for a given prompt text.\<close>

definition image_call :: "string \<Rightarrow> string \<Rightarrow> fetch_call" where
  "image_call API_BASE_URL prompt =
     timed_call (API_BASE_URL @ ''/image'') (Some (json_post (JObj [(''prompt'', JStr prompt)])))"

definition enhance_instruction :: "string \<Rightarrow> string" where
  "enhance_instruction prompt =
     ''Enhance this sprite generation prompt to be more detailed and specific for better AI art generation: \"''
     @ prompt @ ''\". Return only the enhanced prompt.''"

definition enhancePrompt ::
  "network \<Rightarrow> string \<Rightarrow> string \<Rightarrow> fetch_call list \<Rightarrow> (thrown + json) \<times> fetch_call list" where
  "enhancePrompt net API_BASE_URL prompt sent =
     (let (r, sent') = fetchWithErrorHandling net (API_BASE_URL @ ''/chat'')
                        (Some (json_post (JObj [(''prompt'', JStr (enhance_instruction prompt))]))) sent
      in (case r of
            Inl e \<Rightarrow> Inl e
          | Inr response \<Rightarrow>
              (case resp_json response of
                 Inl e \<Rightarrow> Inl e
               | Inr data \<Rightarrow>
                   (case get_prop data ''output'' of
                      Inl e \<Rightarrow> Inl e
                    | Inr out \<Rightarrow> Inr (if truthy out then the out else JStr prompt))),
          sent'))"

text \<open>The one call \<^verbatim>\<open>enhancePrompt\<close> passes to \<^verbatim>\<open>fetch\<close>.\<close>

definition chat_call :: "string \<Rightarrow> string \<Rightarrow> fetch_call" where
  "chat_call API_BASE_URL prompt =
     timed_call (API_BASE_URL @ ''/chat'')
       (Some (json_post (JObj [(''prompt'', JStr (enhance_instruction prompt))])))"

text \<open>A network that settles every call the same way.\<close>

definition always :: "thrown + response \<Rightarrow> network" where
  "always settled k c = settled"

definition ok_reply :: "json \<Rightarrow> thrown + response" where
  "ok_reply data = Inr \<lparr>resp_ok = True, resp_status = 200, resp_json = Inr data\<rparr>"

text \<open>A network that settles its calls as listed, and refuses any further one.\<close>

definition scripted :: "(thrown + response) list \<Rightarrow> network" where
  "scripted settles k c =
     (if k < length settles then settles ! k else Inl (ErrorObj ''TypeError'' ''Failed to fetch''))"

text \<open>The base prompt in the words of the specification, section 4.2:
  \<^verbatim>\<open>a sprite of {character}[, in {pose} pose][, {style} style]\<close>, an empty field being an
  absent one.\<close>

definition spec_base_prompt :: "GenerateRequest \<Rightarrow> string" where
  "spec_base_prompt request =
     ''a sprite of '' @ gr_character request
     @ (if gr_pose request \<noteq> [] then '', in '' @ gr_pose request @ '' pose'' else [])
     @ (if gr_style request \<noteq> [] then '', '' @ gr_style request @ '' style'' else [])"

text \<open>\<^verbatim>\<open>JSON.stringify({ rating, feedback })\<close> leaves an undefined \<^verbatim>\<open>feedback\<close> out.\<close>

definition rating_body :: "int \<Rightarrow> string option \<Rightarrow> json" where
  "rating_body rating feedback =
     JObj ((''rating'', JNum rating) # (case feedback of None \<Rightarrow> [] | Some f \<Rightarrow> [(''feedback'', JStr f)]))"

definition rating_call :: "string \<Rightarrow> string \<Rightarrow> int \<Rightarrow> string option \<Rightarrow> fetch_call" where
  "rating_call API_BASE_URL id' rating feedback =
     timed_call (API_BASE_URL @ ''/sprites/'' @ id')
       (Some \<lparr>req_method = ''PUT'', req_headers = [(''Content-Type'', ''application/json'')],
              req_body = Some (rating_body rating feedback)\<rparr>)"

definition updateSpriteRating ::
  "network \<Rightarrow> string \<Rightarrow> string \<Rightarrow> int \<Rightarrow> string option \<Rightarrow> fetch_call list \<Rightarrow> (thrown + unit) \<times> fetch_call list" where
  "updateSpriteRating net API_BASE_URL id' rating feedback sent =
     (let (r, sent') = fetchWithErrorHandling net (API_BASE_URL @ ''/sprites/'' @ id')
                        (Some \<lparr>req_method = ''PUT'', req_headers = [(''Content-Type'', ''application/json'')],
                               req_body = Some (rating_body rating feedback)\<rparr>) sent
      in (case r of Inl e \<Rightarrow> Inl e | Inr response \<Rightarrow> Inr (), sent'))"

section \<open>\<^verbatim>\<open>App.tsx\<close>: the sprite list and \<^verbatim>\<open>handleRatingChange\<close>\<close>

text \<open>The interface \<^verbatim>\<open>Sprite\<close> of \<^verbatim>\<open>types/sprite.ts\<close>; an optional field is an \<open>option\<close>.\<close>

record Sprite =
  sp_id :: string
  sp_character :: string
  sp_pose :: string
  sp_style :: string
  sp_imageBase64 :: string
  sp_rating :: int
  sp_feedback :: "string option"
  sp_createdAt :: string
  sp_updatedAt :: "string option"

text \<open>The part of the component's state that \<^verbatim>\<open>handleRatingChange\<close> reads or writes.\<close>

record app_state =
  app_sprites :: "Sprite list"
  app_error :: "string option"

text \<open>
  The updater passed to \<^verbatim>\<open>setSprites\<close>. \<^verbatim>\<open>new Date().toISOString()\<close> is read anew for every
  matching element: \<open>now k\<close> is the clock's reading while element \<open>k\<close> is mapped.
\<close>

definition rate_sprites :: "(nat \<Rightarrow> string) \<Rightarrow> string \<Rightarrow> int \<Rightarrow> string option \<Rightarrow> Sprite list \<Rightarrow> Sprite list" where
  "rate_sprites now id' rating feedback prev =
     map (\<lambda>(k, sprite).
            if sp_id sprite = id'
            then sprite\<lparr>sp_rating := rating, sp_feedback := feedback, sp_updatedAt := Some (now k)\<rparr>
            else sprite)
         (enumerate 0 prev)"

definition handleRatingChange ::
  "network \<Rightarrow> string \<Rightarrow> (nat \<Rightarrow> string) \<Rightarrow> app_state \<Rightarrow> string \<Rightarrow> int \<Rightarrow> string option
     \<Rightarrow> fetch_call list \<Rightarrow> app_state \<times> fetch_call list" where
  "handleRatingChange net API_BASE_URL now st id' rating feedback sent =
     (let (r, sent') = updateSpriteRating net API_BASE_URL id' rating feedback sent
      in (case r of
            Inr u \<Rightarrow> st\<lparr>app_sprites := rate_sprites now id' rating feedback (app_sprites st)\<rparr>
          | Inl err \<Rightarrow>
              st\<lparr>app_error := Some (case err of
                                      ErrorObj name message \<Rightarrow> message
                                    | NonError v \<Rightarrow> ''Failed to update rating'')\<rparr>,
          sent'))"

section \<open>\<^verbatim>\<open>components/TrainingDataUpload.tsx\<close>: \<^verbatim>\<open>handleSubmit\<close>\<close>

record formData =
  fd_character :: string
  fd_pose :: string
  fd_styleTags :: "string list"
  fd_characterTags :: "string list"
  fd_prompt :: string

record upload_state =
  us_formData :: formData
  us_selectedImage :: "string option"
  us_isUploading :: bool
  us_error :: "string option"

definition empty_form :: formData where
  "empty_form = \<lparr>fd_character = [], fd_pose = [], fd_styleTags = [], fd_characterTags = [], fd_prompt = []\<rparr>"

text \<open>The call of \<^verbatim>\<open>handleSubmit\<close>: plain \<^verbatim>\<open>fetch\<close>, no abort signal.\<close>

definition upload_call :: "formData \<Rightarrow> string \<Rightarrow> fetch_call" where
  "upload_call fd img =
     \<lparr>call_url = ''http://localhost:5000/training-data'',
      call_init = Some (json_post (JObj
        [(''character'', JStr (fd_character fd)),
         (''pose'', JStr (fd_pose fd)),
         (''style_tags'', JArr (map JStr (fd_styleTags fd))),
         (''character_tags'', JArr (map JStr (fd_characterTags fd))),
         (''image_base64'', JStr img),
         (''prompt'', JStr (fd_prompt fd))])),
      call_timeout_ms = None\<rparr>"

text \<open>
  The result is the state after the handler has run to its end (past \<^verbatim>\<open>finally\<close>), the
  calls issued, and whether \<^verbatim>\<open>onUploadComplete\<close> was called. \<^verbatim>\<open>!selectedImage\<close> holds for
  \<^verbatim>\<open>null\<close> and for the empty string.
\<close>

definition handleSubmit ::
  "network \<Rightarrow> upload_state \<Rightarrow> fetch_call list \<Rightarrow> upload_state \<times> fetch_call list \<times> bool" where
  "handleSubmit net st sent =
     (if us_selectedImage st = None \<or> us_selectedImage st = Some []
         \<or> fd_character (us_formData st) = [] \<or> length (fd_styleTags (us_formData st)) = 0
      then (st\<lparr>us_error := Some ''Please provide character name, image, and at least one style tag''\<rparr>,
            sent, False)
      else
        (let (settled, sent') = fetch net (upload_call (us_formData st) (the (us_selectedImage st))) sent
         in case settled of
              Inr response \<Rightarrow>
                if \<not> resp_ok response
                then (st\<lparr>us_isUploading := False, us_error := Some ''Failed to upload training data''\<rparr>,
                      sent', False)
                else (st\<lparr>us_formData := empty_form, us_selectedImage := None,
                         us_isUploading := False, us_error := None\<rparr>, sent', True)
            | Inl err \<Rightarrow>
                (st\<lparr>us_isUploading := False,
                    us_error := Some (case err of
                                        ErrorObj name message \<Rightarrow> message
                                      | NonError v \<Rightarrow> ''Upload failed'')\<rparr>,
                 sent', False)))"

text \<open>The \<^verbatim>\<open>disabled\<close> attribute of the submit button.\<close>

definition submit_disabled :: "upload_state \<Rightarrow> bool" where
  "submit_disabled st =
     (us_isUploading st \<or> us_selectedImage st = None \<or> us_selectedImage st = Some []
      \<or> fd_character (us_formData st) = [] \<or> length (fd_styleTags (us_formData st)) = 0)"

text \<open>Any number of submissions, the form in any state at each; the calls issued in all.\<close>

fun submissions :: "network \<Rightarrow> upload_state list \<Rightarrow> fetch_call list \<Rightarrow> fetch_call list" where
  "submissions net [] sent = sent"
| "submissions net (st # sts) sent = submissions net sts (fst (snd (handleSubmit net st sent)))"

text \<open>What a call carries as \<^verbatim>\<open>style_tags\<close> and as \<^verbatim>\<open>character\<close>, read back from its body.\<close>

definition body_field :: "fetch_call \<Rightarrow> string \<Rightarrow> json option" where
  "body_field c k =
     (case call_init c of
        None \<Rightarrow> None
      | Some init \<Rightarrow>
          (case req_body init of
             Some (JObj kvs) \<Rightarrow> map_of kvs k
           | _ \<Rightarrow> None))"

definition carries_tags :: "fetch_call \<Rightarrow> bool" where
  "carries_tags c =
     ((case body_field c ''style_tags'' of Some (JArr ts) \<Rightarrow> ts \<noteq> [] | _ \<Rightarrow> False)
      \<and> (case body_field c ''character'' of Some (JStr n) \<Rightarrow> n \<noteq> [] | _ \<Rightarrow> False))"

section \<open>\<^verbatim>\<open>components/MCPInterface.tsx\<close>: the tool table\<close>

record param_config =
  pc_type :: string
  pc_required :: bool

record MCPTool =
  tool_name :: string
  tool_description :: string
  tool_parameters :: "(string \<times> param_config) list"

definition tools :: "MCPTool list" where
  "tools =
     [\<lparr>tool_name = ''generate_sprite'',
       tool_description = ''Generate a character sprite with AI-enhanced prompting'',
       tool_parameters =
         [(''character'', \<lparr>pc_type = ''string'', pc_required = True\<rparr>),
          (''pose'', \<lparr>pc_type = ''string'', pc_required = False\<rparr>),
          (''style'', \<lparr>pc_type = ''string'', pc_required = False\<rparr>),
          (''use_training_data'', \<lparr>pc_type = ''boolean'', pc_required = False\<rparr>)]\<rparr>,
      \<lparr>tool_name = ''enhance_prompt'',
       tool_description = ''Enhance a sprite generation prompt using training data'',
       tool_parameters = [(''prompt'', \<lparr>pc_type = ''string'', pc_required = True\<rparr>)]\<rparr>,
      \<lparr>tool_name = ''analyze_sprite_quality'',
       tool_description = ''Analyze sprite quality and get improvement suggestions'',
       tool_parameters = [(''sprite_id'', \<lparr>pc_type = ''string'', pc_required = True\<rparr>)]\<rparr>,
      \<lparr>tool_name = ''get_style_recommendations'',
       tool_description = ''Get style recommendations based on successful generations'',
       tool_parameters = [(''character'', \<lparr>pc_type = ''string'', pc_required = True\<rparr>)]\<rparr>]"

text \<open>The schema table in the words of the specification, section 6: tool, then parameter,
  type and whether the parameter is required (\<^verbatim>\<open>!\<close>).\<close>

definition spec_schema_table :: "(string \<times> (string \<times> string \<times> bool) list) list" where
  "spec_schema_table =
     [(''generate_sprite'',
         [(''character'', ''string'', True), (''pose'', ''string'', False),
          (''style'', ''string'', False), (''use_training_data'', ''boolean'', False)]),
      (''enhance_prompt'', [(''prompt'', ''string'', True)]),
      (''analyze_sprite_quality'', [(''sprite_id'', ''string'', True)]),
      (''get_style_recommendations'', [(''character'', ''string'', True)])]"

definition schema_of :: "MCPTool \<Rightarrow> string \<times> (string \<times> string \<times> bool) list" where
  "schema_of t = (tool_name t, map (\<lambda>(n, c). (n, pc_type c, pc_required c)) (tool_parameters t))"

section \<open>The tag matcher of the specification\<close>

text \<open>Modelled from the spec: the record TrainingReference of section 3. The training
  store and its records are kept by the back end, which is not among the sources; only
  the upload form that feeds it is. The image payload is opaque and left out; an unset
  rating is \<open>None\<close>.\<close>

record TrainingReference =
  tr_character :: string
  tr_pose :: "string option"
  tr_style_tags :: "string list"
  tr_character_tags :: "string list"
  tr_prompt :: string
  tr_rating :: "nat option"
  tr_uploaded_at :: nat

text \<open>Modelled from the spec: the GenerationRequest of section 3 as the matcher's target,
  with its optional pose and style (the front end's \<^verbatim>\<open>GenerateRequest\<close> has plain strings).\<close>

record MatchTarget =
  mt_character :: string
  mt_pose :: "string option"
  mt_style :: "string option"

text \<open>Modelled from the spec: the letters that the matcher's normalisation of section 4.1
  tells apart by case (the TagMatcher is missing from the sources).\<close>

definition upper_letters :: string where
  "upper_letters = ''ABCDEFGHIJKLMNOPQRSTUVWXYZ''"

text \<open>Modelled from the spec: the lowercase letters, in the order of \<open>upper_letters\<close>.\<close>

definition lower_letters :: string where
  "lower_letters = ''abcdefghijklmnopqrstuvwxyz''"

text \<open>Modelled from the spec: the matcher's normalisation of section 4.1 (the TagMatcher is
  missing from the sources): lowercasing, here of the ASCII letters.\<close>

definition lower_char :: "char \<Rightarrow> char" where
  "lower_char c = (case map_of (zip upper_letters lower_letters) c of Some l \<Rightarrow> l | None \<Rightarrow> c)"

text \<open>Modelled from the spec: lowercasing of a string, section 4.1.\<close>

definition lowercase :: "string \<Rightarrow> string" where
  "lowercase s = map lower_char s"

text \<open>Modelled from the spec: the alphanumeric characters of section 4.1, letters and
  digits of ASCII.\<close>

definition is_alnum :: "char \<Rightarrow> bool" where
  "is_alnum c = (c \<in> set (upper_letters @ lower_letters @ ''0123456789''))"

text \<open>Modelled from the spec: tokenisation of section 4.1, splitting on non-alphanumeric
  boundaries; \<open>cur\<close> is the word being read.\<close>

fun split_words :: "string \<Rightarrow> string \<Rightarrow> string list" where
  "split_words [] cur = (if cur = [] then [] else [cur])"
| "split_words (c # cs) cur =
     (if is_alnum c then split_words cs (cur @ [c])
      else (if cur = [] then [] else [cur]) @ split_words cs [])"

text \<open>Modelled from the spec: the lowercase word set of a string, section 4.1.\<close>

definition tokens :: "string \<Rightarrow> string set" where
  "tokens s = set (split_words (lowercase s) [])"

text \<open>Modelled from the spec: the Jaccard similarity of section 4.1, 0 for two empty sets.\<close>

definition jaccard :: "string set \<Rightarrow> string set \<Rightarrow> rat" where
  "jaccard A B = (if A \<union> B = {} then 0 else of_nat (card (A \<inter> B)) / of_nat (card (A \<union> B)))"

text \<open>Modelled from the spec: the character score of section 4.1 (TagMatcher, missing
  from the sources): 1 for the same character up to case, else the Jaccard similarity of
  the token sets, 0 if either is empty.\<close>

definition character_score :: "MatchTarget \<Rightarrow> TrainingReference \<Rightarrow> rat" where
  "character_score t r =
     (if lowercase (tr_character r) = lowercase (mt_character t) then 1
      else if tokens (mt_character t) = {} \<or> tokens (tr_character r) = {} then 0
      else jaccard (tokens (mt_character t)) (tokens (tr_character r)))"

text \<open>Modelled from the spec: the style score of section 4.1: the Jaccard similarity of
  the target's style tokens and the reference's lowercased style tags, 0 for a target
  without style.\<close>

definition style_score :: "MatchTarget \<Rightarrow> TrainingReference \<Rightarrow> rat" where
  "style_score t r =
     (case mt_style t of
        None \<Rightarrow> 0
      | Some s \<Rightarrow> jaccard (tokens s) (set (map lowercase (tr_style_tags r))))"

text \<open>Modelled from the spec: the pose score of section 4.1: 1 if both poses are given and
  are equal up to case or share a token, 0.5 if either side omits the pose, else 0.\<close>

definition pose_score :: "MatchTarget \<Rightarrow> TrainingReference \<Rightarrow> rat" where
  "pose_score t r =
     (case (mt_pose t, tr_pose r) of
        (Some p, Some q) \<Rightarrow>
          if lowercase p = lowercase q \<or> tokens p \<inter> tokens q \<noteq> {} then 1 else 0
      | _ \<Rightarrow> 1 / 2)"






section \<open>The tool dispatcher of the specification\<close>

text \<open>Modelled from the spec: the caller input errors of section 7, raised by the
  dispatcher, which is missing from the sources.\<close>

datatype dispatch_error = UnknownTool | MissingParameter string | TypeMismatch string

text \<open>Modelled from the spec: the ToolInvocation of section 3. The dispatcher is the back
  end's handler of \<^verbatim>\<open>/mcp/execute\<close>, which is not among the sources: \<^verbatim>\<open>executeTool\<close> of
  \<^verbatim>\<open>MCPInterface.tsx\<close> only posts the invocation to it.\<close>

record ToolInvocation =
  ti_tool_name :: string
  ti_parameters :: "(string \<times> json) list"

text \<open>Modelled from the spec: the response envelope of section 6,
  \<^verbatim>\<open>{tool_name, result, error}\<close>.\<close>

record envelope =
  en_tool_name :: string
  en_result :: "json option"
  en_error :: "string option"

text \<open>Modelled from the spec: section 4.5, the required parameters of a schema that the
  invocation does not supply, in the schema's order.\<close>

definition missing_required :: "(string \<times> param_config) list \<Rightarrow> (string \<times> json) list \<Rightarrow> string list" where
  "missing_required schema params =
     map fst (filter (\<lambda>(n, c). pc_required c \<and> map_of params n = None) schema)"

text \<open>Modelled from the spec: section 4.5, whether a value is of a declared type (string
  or boolean).\<close>

definition has_type :: "string \<Rightarrow> json \<Rightarrow> bool" where
  "has_type ty v =
     (case v of JStr s \<Rightarrow> ty = ''string'' | JBool b \<Rightarrow> ty = ''boolean'' | _ \<Rightarrow> False)"

text \<open>Modelled from the spec: section 4.5, the supplied parameters whose value is not of
  the declared type.\<close>

definition mistyped :: "(string \<times> param_config) list \<Rightarrow> (string \<times> json) list \<Rightarrow> string list" where
  "mistyped schema params =
     map fst (filter (\<lambda>(n, c). case map_of params n of
                                  None \<Rightarrow> False
                                | Some v \<Rightarrow> \<not> has_type (pc_type c) v) schema)"

text \<open>Modelled from the spec: the transition of the ToolDispatcher, section 4.5 (the handler
  of \<^verbatim>\<open>/mcp/execute\<close> is missing from the sources). The schema is the table \<open>tools\<close> of
  \<^verbatim>\<open>MCPInterface.tsx\<close>. \<open>component\<close> stands for the four components: it returns a failure
  message or a result. The second part of the outcome lists the invocations handed to
  a component.\<close>

definition dispatch ::
  "(string \<Rightarrow> (string \<times> json) list \<Rightarrow> string + json) \<Rightarrow> ToolInvocation
     \<Rightarrow> (dispatch_error + envelope) \<times> ToolInvocation list" where
  "dispatch component invocation =
     (case find (\<lambda>t. tool_name t = ti_tool_name invocation) tools of
        None \<Rightarrow> (Inl UnknownTool, [])
      | Some t \<Rightarrow>
          (case missing_required (tool_parameters t) (ti_parameters invocation) of
             n # ns \<Rightarrow> (Inl (MissingParameter n), [])
           | [] \<Rightarrow>
               (case mistyped (tool_parameters t) (ti_parameters invocation) of
                  n # ns \<Rightarrow> (Inl (TypeMismatch n), [])
                | [] \<Rightarrow>
                    (Inr (case component (ti_tool_name invocation) (ti_parameters invocation) of
                            Inl msg \<Rightarrow>
                              \<lparr>en_tool_name = ti_tool_name invocation, en_result = None, en_error = Some msg\<rparr>
                          | Inr v \<Rightarrow>
                              \<lparr>en_tool_name = ti_tool_name invocation, en_result = Some v, en_error = None\<rparr>),
                     [invocation]))))"

section \<open>Sample data\<close>

definition mage_sprite :: Sprite where
  "mage_sprite =
     \<lparr>sp_id = ''1700000000001'', sp_character = ''Mage'', sp_pose = ''casting'', sp_style = ''anime'',
      sp_imageBase64 = ''iVBORw0KGgo='', sp_rating = 0, sp_feedback = None,
      sp_createdAt = ''2024-05-01T10:00:00.000Z'', sp_updatedAt = None\<rparr>"

definition knight_sprite :: Sprite where
  "knight_sprite =
     \<lparr>sp_id = ''1700000000002'', sp_character = ''Knight'', sp_pose = ''idle'', sp_style = ''pixel art'',
      sp_imageBase64 = ''R0lGODlhAQABAAAAACw='', sp_rating = 3, sp_feedback = Some ''ok'',
      sp_createdAt = ''2024-05-02T10:00:00.000Z'', sp_updatedAt = None\<rparr>"

definition noon :: "nat \<Rightarrow> string" where
  "noon k = ''2024-06-01T12:00:00.000Z''"

definition tagged_upload :: upload_state where
  "tagged_upload =
     \<lparr>us_formData = \<lparr>fd_character = ''Mage'', fd_pose = ''casting'', fd_styleTags = [''anime'', ''fire''],
                      fd_characterTags = [], fd_prompt = ''a fire mage''\<rparr>,
      us_selectedImage = Some ''iVBORw0KGgo='', us_isUploading = False, us_error = None\<rparr>"

definition untagged_upload :: upload_state where
  "untagged_upload =
     \<lparr>us_formData = \<lparr>fd_character = ''Mage'', fd_pose = ''casting'', fd_styleTags = [],
                      fd_characterTags = [''wizard''], fd_prompt = ''a fire mage''\<rparr>,
      us_selectedImage = Some ''iVBORw0KGgo='', us_isUploading = False, us_error = None\<rparr>"



text \<open>Responses whose headers arrived in time and whose body read was cut off by the
  ten-second signal: \<^verbatim>\<open>response.json()\<close> rejects with the signal's \<^verbatim>\<open>TimeoutError\<close>.\<close>

definition stalled_error_response :: "thrown + response" where
  "stalled_error_response =
     Inr \<lparr>resp_ok = False, resp_status = 500,
          resp_json = Inl (ErrorObj ''TimeoutError'' ''The operation timed out.'')\<rparr>"

definition stalled_ok_response :: "thrown + response" where
  "stalled_ok_response =
     Inr \<lparr>resp_ok = True, resp_status = 200,
          resp_json = Inl (ErrorObj ''TimeoutError'' ''The operation timed out.'')\<rparr>"

definition failing_component :: "string \<Rightarrow> (string \<times> json) list \<Rightarrow> string + json" where
  "failing_component name params = Inl ''component unavailable''"

section \<open>The calls issued and the results returned by \<^verbatim>\<open>api.ts\<close>\<close>

lemma fetchWithErrorHandling_sent:
  "snd (fetchWithErrorHandling net url options sent) = sent @ [timed_call url options]"
  by (simp add: fetchWithErrorHandling_def fetch_def split: prod.splits)

lemma fetchWithErrorHandling_result:
  "fst (fetchWithErrorHandling net url options sent) =
     (case try_block (net (length sent) (timed_call url options)) of
        Inl e \<Rightarrow> Inl (catch_block e)
      | Inr r \<Rightarrow> Inr r)"
  by (simp add: fetchWithErrorHandling_def fetch_def split: prod.splits)

lemma generateSprite_sent:
  "snd (generateSprite net base request sent) = sent @ [image_call base (generateSprite_prompt request)]"
  by (simp add: generateSprite_def image_call_def Let_def case_prod_beta fetchWithErrorHandling_sent)

lemma enhancePrompt_sent:
  "snd (enhancePrompt net base prompt sent) = sent @ [chat_call base prompt]"
  by (simp add: enhancePrompt_def chat_call_def Let_def case_prod_beta fetchWithErrorHandling_sent)

lemma updateSpriteRating_sent:
  "snd (updateSpriteRating net base i rating feedback sent) = sent @ [rating_call base i rating feedback]"
  by (simp add: updateSpriteRating_def rating_call_def case_prod_beta fetchWithErrorHandling_sent)

lemma enhancePrompt_result:
  "fst (enhancePrompt net base prompt sent) =
     (case try_block (net (length sent) (chat_call base prompt)) of
        Inl e \<Rightarrow> Inl (catch_block e)
      | Inr response \<Rightarrow>
          (case resp_json response of
             Inl e \<Rightarrow> Inl e
           | Inr data \<Rightarrow>
               (case get_prop data ''output'' of
                  Inl e \<Rightarrow> Inl e
                | Inr out \<Rightarrow> Inr (if truthy out then the out else JStr prompt))))"
  by (simp add: enhancePrompt_def chat_call_def Let_def case_prod_beta fetchWithErrorHandling_result
        split: sum.splits)

lemma truthy_the: "truthy out \<Longrightarrow> out = Some (the out)"
  by (cases out) simp_all

subsection \<open>The prompt of \<^verbatim>\<open>enhancePrompt\<close>\<close>

text \<open>
  Claim C1, amended. \<^verbatim>\<open>enhancePrompt\<close> consults no training store: it posts the prompt to
  \<^verbatim>\<open>/chat\<close> and returns \<^verbatim>\<open>data.output || prompt\<close>. When the call succeeds with a JSON body other
  than \<^verbatim>\<open>null\<close>, the result is the body's \<^verbatim>\<open>output\<close> if that is truthy and the given prompt
  otherwise; so the result is exactly the given prompt if and only if the reply carries no
  truthy output (none, \<^verbatim>\<open>null\<close>, \<^verbatim>\<open>false\<close>, \<^verbatim>\<open>0\<close> or the empty string) or its output is the
  prompt itself.
\<close>

theorem enhancePrompt_returns_prompt_iff:
  assumes "net (length sent) (chat_call base prompt) = Inr response"
    and "resp_ok response"
    and "resp_json response = Inr data"
    and "get_prop data ''output'' = Inr out"
  shows "fst (enhancePrompt net base prompt sent) = Inr (if truthy out then the out else JStr prompt)
    \<and> (fst (enhancePrompt net base prompt sent) = Inr (JStr prompt)
         \<longleftrightarrow> (\<not> truthy out \<or> out = Some (JStr prompt)))"
  using assms truthy_the[of out] by (auto simp: enhancePrompt_result try_block_def)

theorem enhancePrompt_returns_prompt_iff_witness:
  "fst (enhancePrompt (always (ok_reply (JObj [(''status'', JStr ''done'')])))
          ''http://localhost:5000'' ''a sprite of Mage'' [])
     = Inr (JStr ''a sprite of Mage'')"
proof -
  let ?data = "JObj [(''status'', JStr ''done'')]"
  let ?r = "\<lparr>resp_ok = True, resp_status = 200, resp_json = Inr ?data\<rparr>"
  have h1: "always (ok_reply ?data) (length ([]::fetch_call list))
              (chat_call ''http://localhost:5000'' ''a sprite of Mage'') = Inr ?r"
    by (simp add: always_def ok_reply_def)
  have h2: "resp_ok ?r" by simp
  have h3: "resp_json ?r = Inr ?data" by simp
  have h4: "get_prop ?data ''output'' = Inr None" by simp
  show ?thesis
    using enhancePrompt_returns_prompt_iff[where net = "always (ok_reply ?data)" and sent = "[]",
        OF h1 h2 h3 h4]
    by simp
qed

text \<open>With no training reference anywhere, a reply that carries an output is returned in
  place of the prompt.\<close>

theorem enhancePrompt_returns_model_output:
  "fst (enhancePrompt (always (ok_reply (JObj [(''output'', JStr ''a detailed mage'')])))
          ''http://localhost:5000'' ''a sprite of Mage'' [])
     = Inr (JStr ''a detailed mage'')
   \<and> fst (enhancePrompt (always (ok_reply (JObj [(''output'', JStr ''a detailed mage'')])))
          ''http://localhost:5000'' ''a sprite of Mage'' [])
     \<noteq> Inr (JStr ''a sprite of Mage'')"
  by (simp add: enhancePrompt_result always_def ok_reply_def try_block_def)

subsection \<open>The prompt of \<^verbatim>\<open>generateSprite\<close>\<close>

text \<open>
  Claim C2, amended. For every request, the prompt that \<^verbatim>\<open>generateSprite\<close> builds and posts
  to \<^verbatim>\<open>/image\<close> is \<^verbatim>\<open>Generate a sprite of {character}\<close>, followed by \<^verbatim>\<open> in {pose} pose\<close> if and
  only if the pose is not empty, by \<^verbatim>\<open> with {style} style\<close> if and only if the style is not
  empty, and by \<^verbatim>\<open>. High quality, detailed sprite art, game character design.\<close>, and nothing
  else.
\<close>

theorem generateSprite_prompt_text:
  "generateSprite_prompt request =
     ''Generate a sprite of '' @ gr_character request
     @ (if gr_pose request = [] then [] else '' in '' @ gr_pose request @ '' pose'')
     @ (if gr_style request = [] then [] else '' with '' @ gr_style request @ '' style'')
     @ ''. High quality, detailed sprite art, game character design.''
   \<and> snd (generateSprite net base request sent)
       = sent @ [image_call base (generateSprite_prompt request)]"
  by (simp add: generateSprite_sent) (simp add: generateSprite_prompt_def)

text \<open>The prompt for a character alone is not the specification's base prompt.\<close>

theorem generateSprite_prompt_differs:
  "generateSprite_prompt \<lparr>gr_character = ''Mage'', gr_pose = [], gr_style = []\<rparr>
     = ''Generate a sprite of Mage. High quality, detailed sprite art, game character design.''
   \<and> spec_base_prompt \<lparr>gr_character = ''Mage'', gr_pose = [], gr_style = []\<rparr> = ''a sprite of Mage''
   \<and> generateSprite_prompt \<lparr>gr_character = ''Mage'', gr_pose = [], gr_style = []\<rparr>
     \<noteq> spec_base_prompt \<lparr>gr_character = ''Mage'', gr_pose = [], gr_style = []\<rparr>"
  by (simp add: generateSprite_prompt_def spec_base_prompt_def)

subsection \<open>What the result of \<^verbatim>\<open>enhancePrompt\<close> depends on\<close>

text \<open>
  Claim C3, amended. The result of \<^verbatim>\<open>enhancePrompt\<close> is a function of the prompt and of what
  its one \<^verbatim>\<open>/chat\<close> call settles to: two runs on the same prompt whose calls settle alike
  return the same result, whatever else differs between them (the network otherwise, the
  calls issued before). The prompt alone does not determine the result.
\<close>

theorem enhancePrompt_determined_by_reply:
  assumes "net1 (length sent1) (chat_call base prompt) = net2 (length sent2) (chat_call base prompt)"
  shows "fst (enhancePrompt net1 base prompt sent1) = fst (enhancePrompt net2 base prompt sent2)"
  using assms by (simp add: enhancePrompt_result)

theorem enhancePrompt_determined_by_reply_witness:
  "fst (enhancePrompt (always (ok_reply (JObj [(''output'', JStr ''a fire mage'')])))
          ''http://localhost:5000'' ''a sprite of Mage'' [])
   = fst (enhancePrompt (always (ok_reply (JObj [(''output'', JStr ''a fire mage'')])))
          ''http://localhost:5000'' ''a sprite of Mage''
          [chat_call ''http://localhost:5000'' ''a sprite of Mage''])"
proof -
  let ?net = "always (ok_reply (JObj [(''output'', JStr ''a fire mage'')]))"
  let ?c = "chat_call ''http://localhost:5000'' ''a sprite of Mage''"
  have h: "?net (length ([]::fetch_call list)) ?c = ?net (length [?c]) ?c"
    by (simp add: always_def)
  show ?thesis
    using enhancePrompt_determined_by_reply[where ?net1.0 = ?net and ?net2.0 = ?net
        and ?sent1.0 = "[]" and ?sent2.0 = "[?c]", OF h]
    by simp
qed

text \<open>Two runs in a row on one prompt, against one network whose chat model words its
  second answer differently: the first returns \<^verbatim>\<open>a fire mage\<close>, the second \<^verbatim>\<open>an ice mage\<close>.\<close>

theorem enhancePrompt_replies_differ:
  "fst (enhancePrompt
          (scripted [ok_reply (JObj [(''output'', JStr ''a fire mage'')]),
                     ok_reply (JObj [(''output'', JStr ''an ice mage'')])])
          ''http://localhost:5000'' ''a sprite of Mage'' [])
     = Inr (JStr ''a fire mage'')
   \<and> fst (enhancePrompt
          (scripted [ok_reply (JObj [(''output'', JStr ''a fire mage'')]),
                     ok_reply (JObj [(''output'', JStr ''an ice mage'')])])
          ''http://localhost:5000'' ''a sprite of Mage''
          [chat_call ''http://localhost:5000'' ''a sprite of Mage''])
     = Inr (JStr ''an ice mage'')
   \<and> fst (enhancePrompt
          (scripted [ok_reply (JObj [(''output'', JStr ''a fire mage'')]),
                     ok_reply (JObj [(''output'', JStr ''an ice mage'')])])
          ''http://localhost:5000'' ''a sprite of Mage'' [])
     \<noteq> fst (enhancePrompt
          (scripted [ok_reply (JObj [(''output'', JStr ''a fire mage'')]),
                     ok_reply (JObj [(''output'', JStr ''an ice mage'')])])
          ''http://localhost:5000'' ''a sprite of Mage''
          [chat_call ''http://localhost:5000'' ''a sprite of Mage''])"
  by (simp add: enhancePrompt_result scripted_def ok_reply_def try_block_def)

subsection \<open>One request for each invocation\<close>

lemma handleRatingChange_sent:
  "snd (handleRatingChange net base now st i rating feedback sent)
     = sent @ [rating_call base i rating feedback]"
  by (simp add: handleRatingChange_def case_prod_beta updateSpriteRating_sent)

lemma handleSubmit_sent:
  "fst (snd (handleSubmit net st sent)) =
     (if us_selectedImage st = None \<or> us_selectedImage st = Some []
         \<or> fd_character (us_formData st) = [] \<or> fd_styleTags (us_formData st) = []
      then sent else sent @ [upload_call (us_formData st) (the (us_selectedImage st))])"
  by (simp add: handleSubmit_def fetch_def split: sum.splits)

text \<open>
  Claim C9. Whatever the network answers (a response, an HTTP error, a rejection, a
  timeout), \<^verbatim>\<open>fetchWithErrorHandling\<close> issues exactly one call, and so does each function
  built on it: \<^verbatim>\<open>generateSprite\<close>, \<^verbatim>\<open>enhancePrompt\<close>, \<^verbatim>\<open>updateSpriteRating\<close> and the handler
  \<^verbatim>\<open>handleRatingChange\<close>; \<^verbatim>\<open>handleSubmit\<close> issues at most one. Nothing is retried.
\<close>

theorem one_request_per_invocation:
  "snd (fetchWithErrorHandling net url options sent) = sent @ [timed_call url options]
   \<and> snd (generateSprite net base request sent)
       = sent @ [image_call base (generateSprite_prompt request)]
   \<and> snd (enhancePrompt net base prompt sent) = sent @ [chat_call base prompt]
   \<and> snd (updateSpriteRating net base i rating feedback sent)
       = sent @ [rating_call base i rating feedback]
   \<and> snd (handleRatingChange net base now st i rating feedback sent)
       = sent @ [rating_call base i rating feedback]
   \<and> length (fst (snd (handleSubmit net ust sent))) \<le> length sent + 1"
  by (simp add: fetchWithErrorHandling_sent generateSprite_sent enhancePrompt_sent
        updateSpriteRating_sent handleRatingChange_sent handleSubmit_sent)

section \<open>The local rating update of \<^verbatim>\<open>App.tsx\<close>\<close>

lemma rate_sprites_length: "length (rate_sprites now i rating feedback prev) = length prev"
  by (simp add: rate_sprites_def)

lemma rate_sprites_nth:
  "k < length prev \<Longrightarrow> rate_sprites now i rating feedback prev ! k =
     (if sp_id (prev ! k) = i
      then (prev ! k)\<lparr>sp_rating := rating, sp_feedback := feedback, sp_updatedAt := Some (now k)\<rparr>
      else prev ! k)"
  by (simp add: rate_sprites_def nth_enumerate_eq)

lemma handleRatingChange_sprites:
  "app_sprites (fst (handleRatingChange net base now st i rating feedback sent)) =
     (case fst (updateSpriteRating net base i rating feedback sent) of
        Inr u \<Rightarrow> rate_sprites now i rating feedback (app_sprites st)
      | Inl e \<Rightarrow> app_sprites st)"
  by (simp add: handleRatingChange_def case_prod_beta split: sum.splits)

lemma updateSpriteRating_ok:
  "fst (updateSpriteRating (always (ok_reply d)) base i rating feedback sent) = Inr ()"
  by (simp add: updateSpriteRating_def case_prod_beta fetchWithErrorHandling_result always_def
        ok_reply_def try_block_def)

text \<open>
  Claim C10. After \<^verbatim>\<open>handleRatingChange\<close> the sprite list has the length and the order it
  had. An element whose id is not the given one is unchanged; every element keeps its id,
  character, pose, style, image and creation time; and when the back end accepted the
  update, an element with the given id differs from the old one in its rating, feedback
  and update time only, which are the given rating, the given feedback and the clock's
  reading.
\<close>

theorem handleRatingChange_frame:
  "length (app_sprites (fst (handleRatingChange net base now st i rating feedback sent)))
     = length (app_sprites st)
   \<and> (\<forall>k < length (app_sprites st).
        (let old = app_sprites st ! k;
             new = app_sprites (fst (handleRatingChange net base now st i rating feedback sent)) ! k
         in (sp_id old \<noteq> i \<longrightarrow> new = old)
            \<and> sp_id new = sp_id old \<and> sp_character new = sp_character old
            \<and> sp_pose new = sp_pose old \<and> sp_style new = sp_style old
            \<and> sp_imageBase64 new = sp_imageBase64 old \<and> sp_createdAt new = sp_createdAt old
            \<and> (sp_id old = i \<and> fst (updateSpriteRating net base i rating feedback sent) = Inr ()
                 \<longrightarrow> new = old\<lparr>sp_rating := rating, sp_feedback := feedback,
                                  sp_updatedAt := Some (now k)\<rparr>)))"
proof (cases "fst (updateSpriteRating net base i rating feedback sent)")
  case (Inl e)
  then have "app_sprites (fst (handleRatingChange net base now st i rating feedback sent))
      = app_sprites st"
    by (simp add: handleRatingChange_sprites)
  then show ?thesis using Inl by simp
next
  case (Inr u)
  then have "app_sprites (fst (handleRatingChange net base now st i rating feedback sent))
      = rate_sprites now i rating feedback (app_sprites st)"
    by (simp add: handleRatingChange_sprites)
  then show ?thesis
    by (simp add: rate_sprites_length rate_sprites_nth Let_def)
qed

theorem handleRatingChange_frame_witness:
  "app_sprites (fst (handleRatingChange (always (ok_reply (JObj []))) ''http://localhost:5000'' noon
       \<lparr>app_sprites = [mage_sprite, knight_sprite], app_error = None\<rparr>
       ''1700000000002'' 5 (Some ''great'') []))
   = [mage_sprite,
      knight_sprite\<lparr>sp_rating := 5, sp_feedback := Some ''great'',
                    sp_updatedAt := Some ''2024-06-01T12:00:00.000Z''\<rparr>]"
proof -
  let ?st = "\<lparr>app_sprites = [mage_sprite, knight_sprite], app_error = None\<rparr>"
  let ?new = "app_sprites (fst (handleRatingChange (always (ok_reply (JObj [])))
       ''http://localhost:5000'' noon ?st ''1700000000002'' 5 (Some ''great'') []))"
  note f = handleRatingChange_frame[of "always (ok_reply (JObj []))" "''http://localhost:5000''"
       noon ?st "''1700000000002''" 5 "Some ''great''" "[]"]
  have len: "length ?new = 2" using f by simp
  have ok: "fst (updateSpriteRating (always (ok_reply (JObj []))) ''http://localhost:5000''
       ''1700000000002'' 5 (Some ''great'') []) = Inr ()"
    by (rule updateSpriteRating_ok)
  have k0: "?new ! 0 = mage_sprite"
    using f by (simp add: Let_def mage_sprite_def knight_sprite_def)
  have k1: "?new ! 1 = knight_sprite\<lparr>sp_rating := 5, sp_feedback := Some ''great'',
                    sp_updatedAt := Some ''2024-06-01T12:00:00.000Z''\<rparr>"
    using f ok by (simp add: Let_def mage_sprite_def knight_sprite_def noon_def)
  show ?thesis
    using len k0 k1 by (simp add: list_eq_iff_nth_eq less_Suc_eq numeral_2_eq_2)
qed

section \<open>Timeouts\<close>

lemma timeout_translated:
  assumes "name = ''AbortError'' \<or> name = ''TimeoutError''"
    and "net (length sent) (timed_call url options) = Inl (ErrorObj name message)"
  shows "fst (fetchWithErrorHandling net url options sent) = Inl (ErrorObj ''Error'' timeout_message)"
  using assms by (auto simp: fetchWithErrorHandling_result try_block_def catch_block_def)

lemma enhancePrompt_via:
  "fst (enhancePrompt net base prompt sent) =
     (case fst (fetchWithErrorHandling net (call_url (chat_call base prompt))
                  (call_init (chat_call base prompt)) sent) of
        Inl e \<Rightarrow> Inl e
      | Inr response \<Rightarrow>
          (case resp_json response of
             Inl e \<Rightarrow> Inl e
           | Inr data \<Rightarrow>
               (case get_prop data ''output'' of
                  Inl e \<Rightarrow> Inl e
                | Inr out \<Rightarrow> Inr (if truthy out then the out else JStr prompt))))"
  by (simp add: enhancePrompt_def chat_call_def timed_call_def case_prod_beta)

lemma updateSpriteRating_via:
  "fst (updateSpriteRating net base i rating feedback sent) =
     (case fst (fetchWithErrorHandling net (call_url (rating_call base i rating feedback))
                  (call_init (rating_call base i rating feedback)) sent) of
        Inl e \<Rightarrow> Inl e
      | Inr response \<Rightarrow> Inr ())"
  by (simp add: updateSpriteRating_def rating_call_def timed_call_def case_prod_beta)

lemma handleRatingChange_state:
  "fst (handleRatingChange net base now st i rating feedback sent) =
     (case fst (updateSpriteRating net base i rating feedback sent) of
        Inr u \<Rightarrow> st\<lparr>app_sprites := rate_sprites now i rating feedback (app_sprites st)\<rparr>
      | Inl err \<Rightarrow>
          st\<lparr>app_error := Some (case err of
                                  ErrorObj name message \<Rightarrow> message
                                | NonError v \<Rightarrow> ''Failed to update rating'')\<rparr>)"
  by (simp add: handleRatingChange_def case_prod_beta split: sum.splits)

text \<open>
  The path on which the translation of \<^verbatim>\<open>fetchWithErrorHandling\<close> works. Every call carries the
  ten-second abort signal. When the signal fires before the response has arrived (the
  promise of \<^verbatim>\<open>fetch\<close> rejects with an \<^verbatim>\<open>Error\<close> named \<^verbatim>\<open>TimeoutError\<close> or \<^verbatim>\<open>AbortError\<close>), the
  caller gets the error \<^verbatim>\<open>Request timed out. Please check if the backend server is running.\<close>
  and no response with it, and nothing has happened but that one call. The same error
  comes out of \<^verbatim>\<open>enhancePrompt\<close>, and \<^verbatim>\<open>handleRatingChange\<close> shows it and leaves the sprite list
  as it was.
\<close>

theorem fetchWithErrorHandling_timeout:
  assumes "name = ''AbortError'' \<or> name = ''TimeoutError''"
  shows "(net (length sent) (timed_call url options) = Inl (ErrorObj name message) \<longrightarrow>
            fetchWithErrorHandling net url options sent
              = (Inl (ErrorObj ''Error'' timeout_message), sent @ [timed_call url options]))
       \<and> (net (length sent) (chat_call base prompt) = Inl (ErrorObj name message) \<longrightarrow>
            enhancePrompt net base prompt sent
              = (Inl (ErrorObj ''Error'' timeout_message), sent @ [chat_call base prompt]))
       \<and> (net (length sent) (rating_call base i rating feedback) = Inl (ErrorObj name message) \<longrightarrow>
            handleRatingChange net base now st i rating feedback sent
              = (st\<lparr>app_error := Some timeout_message\<rparr>, sent @ [rating_call base i rating feedback]))
       \<and> call_timeout_ms (timed_call url options) = Some 10000"
proof (intro conjI impI)
  assume "net (length sent) (timed_call url options) = Inl (ErrorObj name message)"
  from timeout_translated[where net = net and sent = sent, OF assms this]
  show "fetchWithErrorHandling net url options sent
          = (Inl (ErrorObj ''Error'' timeout_message), sent @ [timed_call url options])"
    by (simp add: prod_eq_iff fetchWithErrorHandling_sent)
next
  assume a: "net (length sent) (chat_call base prompt) = Inl (ErrorObj name message)"
  have "chat_call base prompt
      = timed_call (call_url (chat_call base prompt)) (call_init (chat_call base prompt))"
    by (simp add: chat_call_def timed_call_def)
  with a have "fst (fetchWithErrorHandling net (call_url (chat_call base prompt))
                  (call_init (chat_call base prompt)) sent) = Inl (ErrorObj ''Error'' timeout_message)"
    using timeout_translated[where net = net and sent = sent
        and url = "call_url (chat_call base prompt)"
        and options = "call_init (chat_call base prompt)" and message = message, OF assms]
    by simp
  then show "enhancePrompt net base prompt sent
              = (Inl (ErrorObj ''Error'' timeout_message), sent @ [chat_call base prompt])"
    by (simp add: prod_eq_iff enhancePrompt_sent enhancePrompt_via)
next
  assume a: "net (length sent) (rating_call base i rating feedback) = Inl (ErrorObj name message)"
  have "rating_call base i rating feedback
      = timed_call (call_url (rating_call base i rating feedback))
          (call_init (rating_call base i rating feedback))"
    by (simp add: rating_call_def timed_call_def)
  with a have "fst (fetchWithErrorHandling net (call_url (rating_call base i rating feedback))
                  (call_init (rating_call base i rating feedback)) sent)
               = Inl (ErrorObj ''Error'' timeout_message)"
    using timeout_translated[where net = net and sent = sent
        and url = "call_url (rating_call base i rating feedback)"
        and options = "call_init (rating_call base i rating feedback)" and message = message,
        OF assms]
    by simp
  then have "fst (updateSpriteRating net base i rating feedback sent)
               = Inl (ErrorObj ''Error'' timeout_message)"
    by (simp add: updateSpriteRating_via)
  then show "handleRatingChange net base now st i rating feedback sent
              = (st\<lparr>app_error := Some timeout_message\<rparr>, sent @ [rating_call base i rating feedback])"
    by (simp add: prod_eq_iff handleRatingChange_sent handleRatingChange_state)
next
  show "call_timeout_ms (timed_call url options) = Some 10000"
    by (simp add: timed_call_def)
qed

theorem fetchWithErrorHandling_timeout_witness:
  "fetchWithErrorHandling (always (Inl (ErrorObj ''TimeoutError'' ''signal timed out'')))
       ''http://localhost:5000/sprites'' None []
     = (Inl (ErrorObj ''Error'' ''Request timed out. Please check if the backend server is running.''),
        [\<lparr>call_url = ''http://localhost:5000/sprites'', call_init = None,
          call_timeout_ms = Some 10000\<rparr>])
   \<and> fst (handleRatingChange (always (Inl (ErrorObj ''TimeoutError'' ''signal timed out'')))
       ''http://localhost:5000'' noon \<lparr>app_sprites = [mage_sprite, knight_sprite], app_error = None\<rparr>
       ''1700000000002'' 5 None [])
     = \<lparr>app_sprites = [mage_sprite, knight_sprite],
        app_error = Some ''Request timed out. Please check if the backend server is running.''\<rparr>"
proof -
  let ?net = "always (Inl (ErrorObj ''TimeoutError'' ''signal timed out''))"
  have h: "''TimeoutError'' = ''AbortError'' \<or> ''TimeoutError'' = ''TimeoutError''" by simp
  note t = fetchWithErrorHandling_timeout[where net = ?net and sent = "[]"
      and message = "''signal timed out''", OF h]
  have a: "fetchWithErrorHandling ?net ''http://localhost:5000/sprites'' None []
     = (Inl (ErrorObj ''Error'' timeout_message), [timed_call ''http://localhost:5000/sprites'' None])"
    using t[where url = "''http://localhost:5000/sprites''" and options = None]
    by (simp add: always_def)
  have b: "handleRatingChange ?net ''http://localhost:5000'' noon
       \<lparr>app_sprites = [mage_sprite, knight_sprite], app_error = None\<rparr> ''1700000000002'' 5 None []
     = (\<lparr>app_sprites = [mage_sprite, knight_sprite], app_error = None\<rparr>\<lparr>app_error := Some timeout_message\<rparr>,
        [rating_call ''http://localhost:5000'' ''1700000000002'' 5 None])"
    using t[where base = "''http://localhost:5000''" and i = "''1700000000002''" and rating = 5
        and feedback = None and now = noon
        and st = "\<lparr>app_sprites = [mage_sprite, knight_sprite], app_error = None\<rparr>"]
    by (simp add: always_def)
  show ?thesis using a b by (simp add: timed_call_def timeout_message_def)
qed

text \<open>
  Claim C8 asks that every query that exceeds its timeout surface a timeout error. The
  code misses the query whose response has arrived when the signal fires, while the body
  is still being read. For a response that is not ok, \<^verbatim>\<open>fetchWithErrorHandling\<close> reads the
  body with \<^verbatim>\<open>response.json().catch(() => ({ error: 'Unknown error' }))\<close>, which swallows the
  \<^verbatim>\<open>TimeoutError\<close>: the caller gets \<^verbatim>\<open>Error('Unknown error')\<close>, not the timeout error, and
  \<^verbatim>\<open>handleRatingChange\<close> shows \<^verbatim>\<open>Unknown error\<close>. For an ok response the callers read the
  body outside the \<^verbatim>\<open>try\<close>, and \<^verbatim>\<open>enhancePrompt\<close> lets the \<^verbatim>\<open>TimeoutError\<close> out as it is,
  without the message of \<^verbatim>\<open>fetchWithErrorHandling\<close>.
\<close>

theorem timeout_in_body_read_not_translated:
  "fetchWithErrorHandling (always stalled_error_response) ''http://localhost:5000/sprites'' None []
     = (Inl (ErrorObj ''Error'' ''Unknown error''),
        [timed_call ''http://localhost:5000/sprites'' None])
   \<and> fst (fetchWithErrorHandling (always stalled_error_response)
            ''http://localhost:5000/sprites'' None [])
       \<noteq> Inl (ErrorObj ''Error'' timeout_message)
   \<and> fst (handleRatingChange (always stalled_error_response) ''http://localhost:5000'' noon
            \<lparr>app_sprites = [mage_sprite, knight_sprite], app_error = None\<rparr>
            ''1700000000002'' 5 None [])
       = \<lparr>app_sprites = [mage_sprite, knight_sprite], app_error = Some ''Unknown error''\<rparr>
   \<and> fst (enhancePrompt (always stalled_ok_response) ''http://localhost:5000''
            ''a sprite of Mage'' [])
       = Inl (ErrorObj ''TimeoutError'' ''The operation timed out.'')"
proof -
  have a: "fst (fetchWithErrorHandling (always stalled_error_response) url options sent)
             = Inl (ErrorObj ''Error'' ''Unknown error'')" for url options sent
    by (simp add: fetchWithErrorHandling_result always_def stalled_error_response_def
          try_block_def catch_block_def)
  have b: "fst (updateSpriteRating (always stalled_error_response) ''http://localhost:5000''
                  ''1700000000002'' 5 None [])
             = Inl (ErrorObj ''Error'' ''Unknown error'')"
    by (simp add: updateSpriteRating_via a)
  have c: "fst (enhancePrompt (always stalled_ok_response) ''http://localhost:5000''
                  ''a sprite of Mage'' [])
             = Inl (ErrorObj ''TimeoutError'' ''The operation timed out.'')"
    by (simp add: enhancePrompt_result always_def stalled_ok_response_def try_block_def)
  show ?thesis
    using a[of "''http://localhost:5000/sprites''" None "[]"] b c
    by (simp add: prod_eq_iff fetchWithErrorHandling_sent handleRatingChange_state
          timeout_message_def)
qed

section \<open>The guard of the upload form\<close>

lemma carries_tags_upload:
  "fd_styleTags fd \<noteq> [] \<Longrightarrow> fd_character fd \<noteq> [] \<Longrightarrow> carries_tags (upload_call fd img)"
  by (simp add: carries_tags_def body_field_def upload_call_def json_post_def)

lemma handleSubmit_carries:
  assumes "\<forall>c \<in> set sent. carries_tags c"
  shows "\<forall>c \<in> set (fst (snd (handleSubmit net st sent))). carries_tags c"
  using assms by (auto simp: handleSubmit_sent carries_tags_upload)

lemma submissions_carry:
  "\<forall>c \<in> set sent. carries_tags c \<Longrightarrow> \<forall>c \<in> set (submissions net sts sent). carries_tags c"
proof (induction sts arbitrary: sent)
  case Nil
  then show ?case by simp
next
  case (Cons st sts)
  have "\<forall>c \<in> set (fst (snd (handleSubmit net st sent))). carries_tags c"
    using Cons.prems by (rule handleSubmit_carries)
  then show ?case using Cons.IH by simp
qed

text \<open>
  Claim C7. A submission with no style tag (or with no character) finds the submit button
  disabled and is turned down by \<^verbatim>\<open>handleSubmit\<close> with the message asking for them, and no
  request is issued. So over any number of submissions, on any network, every upload
  request that reaches the training store carries at least one style tag and a
  character.
\<close>

theorem handleSubmit_requires_style_tags:
  "(fd_styleTags (us_formData st) = [] \<or> fd_character (us_formData st) = [] \<longrightarrow>
      submit_disabled st
      \<and> handleSubmit net st sent =
          (st\<lparr>us_error := Some ''Please provide character name, image, and at least one style tag''\<rparr>,
           sent, False))
   \<and> (\<forall>c \<in> set (submissions net sts []). carries_tags c)"
proof -
  have "\<forall>c \<in> set (submissions net sts []). carries_tags c"
    by (rule submissions_carry) simp
  then show ?thesis by (auto simp: handleSubmit_def submit_disabled_def)
qed

theorem handleSubmit_requires_style_tags_witness:
  "submit_disabled untagged_upload
   \<and> handleSubmit (always (ok_reply (JObj []))) untagged_upload []
     = (untagged_upload\<lparr>us_error :=
          Some ''Please provide character name, image, and at least one style tag''\<rparr>,
        [], False)
   \<and> submissions (always (ok_reply (JObj []))) [untagged_upload, tagged_upload] []
     = [upload_call (us_formData tagged_upload) ''iVBORw0KGgo='']
   \<and> carries_tags (upload_call (us_formData tagged_upload) ''iVBORw0KGgo='')"
proof -
  let ?net = "always (ok_reply (JObj []))"
  note t = handleSubmit_requires_style_tags[of untagged_upload ?net "[]"
      "[untagged_upload, tagged_upload]"]
  have e: "fd_styleTags (us_formData untagged_upload) = []" by (simp add: untagged_upload_def)
  have s: "submissions ?net [untagged_upload, tagged_upload] []
     = [upload_call (us_formData tagged_upload) ''iVBORw0KGgo='']"
    by (simp add: handleSubmit_sent untagged_upload_def tagged_upload_def)
  show ?thesis using t e s by simp
qed

section \<open>The tool table\<close>

text \<open>
  Claim C4. The table \<open>tools\<close> of \<^verbatim>\<open>MCPInterface.tsx\<close> is the schema table of the
  specification: the four tools \<^verbatim>\<open>generate_sprite\<close>, \<^verbatim>\<open>enhance_prompt\<close>,
  \<^verbatim>\<open>analyze_sprite_quality\<close> and \<^verbatim>\<open>get_style_recommendations\<close>, under distinct names, each with
  exactly the parameters, types and required flags listed there.
\<close>

theorem tools_schema_table:
  "map schema_of tools = spec_schema_table \<and> length tools = 4 \<and> distinct (map tool_name tools)"
  by (simp add: tools_def spec_schema_table_def schema_of_def)

section \<open>Validation by the tool dispatcher\<close>

lemma find_tool_known:
  "find (\<lambda>t. tool_name t = n) tools =
     (if n \<in> {''generate_sprite'', ''enhance_prompt'',
             ''analyze_sprite_quality'', ''get_style_recommendations''}
      then find (\<lambda>t. tool_name t = n) tools else None)"
  by (simp add: tools_def)

lemma missing_required_first:
  assumes "t \<in> set tools" and "(n, c) \<in> set (tool_parameters t)" and "pc_required c"
    and "map_of params n = None"
  shows "\<exists>ns. missing_required (tool_parameters t) params = n # ns"
  using assms by (auto simp: tools_def missing_required_def)

lemma dispatch_unknown:
  assumes "ti_tool_name invocation \<notin> {''generate_sprite'', ''enhance_prompt'',
             ''analyze_sprite_quality'', ''get_style_recommendations''}"
  shows "dispatch component invocation = (Inl UnknownTool, [])"
proof -
  have "find (\<lambda>t. tool_name t = ti_tool_name invocation) tools = None"
    using assms by (subst find_tool_known) simp
  then show ?thesis by (simp add: dispatch_def)
qed

lemma dispatch_missing:
  assumes "find (\<lambda>t. tool_name t = ti_tool_name invocation) tools = Some t"
    and "(n, c) \<in> set (tool_parameters t)" and "pc_required c"
    and "map_of (ti_parameters invocation) n = None"
  shows "dispatch component invocation = (Inl (MissingParameter n), [])"
proof -
  have "t \<in> set tools" using assms(1) by (auto simp: find_Some_iff)
  from missing_required_first[OF this assms(2) assms(3) assms(4)]
  obtain ns where "missing_required (tool_parameters t) (ti_parameters invocation) = n # ns"
    by blast
  then show ?thesis using assms(1) by (simp add: dispatch_def)
qed

lemma find_enhance_prompt:
  "find (\<lambda>t. tool_name t = ''enhance_prompt'') tools
     = Some \<lparr>tool_name = ''enhance_prompt'',
             tool_description = ''Enhance a sprite generation prompt using training data'',
             tool_parameters = [(''prompt'', \<lparr>pc_type = ''string'', pc_required = True\<rparr>)]\<rparr>"
  by (simp add: tools_def)

lemma dispatch_enhance_prompt_empty:
  "dispatch component \<lparr>ti_tool_name = ''enhance_prompt'', ti_parameters = []\<rparr>
     = (Inl (MissingParameter ''prompt''), [])"
  by (simp add: dispatch_def find_enhance_prompt missing_required_def)

lemma find_generate_sprite:
  "find (\<lambda>t. tool_name t = ''generate_sprite'') tools = Some (hd tools)"
  by (simp add: tools_def)

lemma character_required:
  "(''character'', \<lparr>pc_type = ''string'', pc_required = True\<rparr>) \<in> set (tool_parameters (hd tools))"
  by (simp add: tools_def)

text \<open>
  Claim C5, for the dispatcher as the specification describes it, over the tool table of
  \<^verbatim>\<open>MCPInterface.tsx\<close>. An invocation whose tool is none of the four fails with UnknownTool.
  An invocation of a known tool that lacks a required parameter fails with
  MissingParameter of that parameter. In both cases no component has been handed the
  invocation. In particular \<^verbatim>\<open>enhance_prompt\<close> with no parameters fails with
  MissingParameter of \<^verbatim>\<open>prompt\<close>.
\<close>

theorem dispatch_validates_first:
  "(ti_tool_name invocation \<notin> {''generate_sprite'', ''enhance_prompt'',
        ''analyze_sprite_quality'', ''get_style_recommendations''}
      \<longrightarrow> dispatch component invocation = (Inl UnknownTool, []))
   \<and> (\<forall>t n c. find (\<lambda>t. tool_name t = ti_tool_name invocation) tools = Some t
          \<and> (n, c) \<in> set (tool_parameters t) \<and> pc_required c
          \<and> map_of (ti_parameters invocation) n = None
        \<longrightarrow> dispatch component invocation = (Inl (MissingParameter n), []))
   \<and> dispatch component \<lparr>ti_tool_name = ''enhance_prompt'', ti_parameters = []\<rparr>
       = (Inl (MissingParameter ''prompt''), [])"
proof (intro conjI impI allI)
  assume "ti_tool_name invocation \<notin> {''generate_sprite'', ''enhance_prompt'',
        ''analyze_sprite_quality'', ''get_style_recommendations''}"
  then show "dispatch component invocation = (Inl UnknownTool, [])"
    by (rule dispatch_unknown)
next
  fix t n c
  assume "find (\<lambda>t. tool_name t = ti_tool_name invocation) tools = Some t
          \<and> (n, c) \<in> set (tool_parameters t) \<and> pc_required c
          \<and> map_of (ti_parameters invocation) n = None"
  then show "dispatch component invocation = (Inl (MissingParameter n), [])"
    using dispatch_missing by blast
next
  show "dispatch component \<lparr>ti_tool_name = ''enhance_prompt'', ti_parameters = []\<rparr>
       = (Inl (MissingParameter ''prompt''), [])"
    by (rule dispatch_enhance_prompt_empty)
qed

theorem dispatch_validates_first_witness:
  "dispatch failing_component \<lparr>ti_tool_name = ''delete_sprites'', ti_parameters = []\<rparr>
     = (Inl UnknownTool, [])
   \<and> dispatch failing_component
       \<lparr>ti_tool_name = ''generate_sprite'', ti_parameters = [(''pose'', JStr ''idle'')]\<rparr>
     = (Inl (MissingParameter ''character''), [])"
proof -
  let ?i1 = "\<lparr>ti_tool_name = ''delete_sprites'', ti_parameters = []\<rparr>"
  let ?i2 = "\<lparr>ti_tool_name = ''generate_sprite'', ti_parameters = [(''pose'', JStr ''idle'')]\<rparr>"
  have a: "dispatch failing_component ?i1 = (Inl UnknownTool, [])"
    using dispatch_validates_first[of ?i1 failing_component] by simp
  have f: "find (\<lambda>t. tool_name t = ti_tool_name ?i2) tools = Some (hd tools)"
    by (simp add: find_generate_sprite)
  have p: "pc_required \<lparr>pc_type = ''string'', pc_required = True\<rparr>" by simp
  have q: "map_of (ti_parameters ?i2) ''character'' = None" by simp
  have b: "dispatch failing_component ?i2 = (Inl (MissingParameter ''character''), [])"
    using f character_required p q
    by (intro dispatch_validates_first[of ?i2 failing_component, THEN conjunct2, THEN conjunct1,
          rule_format, of "hd tools" "''character''" "\<lparr>pc_type = ''string'', pc_required = True\<rparr>"]
        conjI)
  show ?thesis using a b by simp
qed

section \<open>The scores of the tag matcher\<close>

lemma jaccard_bounds: "0 \<le> jaccard A B \<and> jaccard A B \<le> 1"
proof (cases "finite (A \<union> B)")
  case True
  then have "card (A \<inter> B) \<le> card (A \<union> B)"
    by (intro card_mono) auto
  then show ?thesis
    by (auto simp: jaccard_def divide_le_eq_1)
next
  case False
  then show ?thesis by (simp add: jaccard_def)
qed

lemma character_score_bounds: "0 \<le> character_score t r \<and> character_score t r \<le> 1"
  using jaccard_bounds by (simp add: character_score_def)

lemma style_score_bounds: "0 \<le> style_score t r \<and> style_score t r \<le> 1"
  using jaccard_bounds by (simp add: style_score_def split: option.splits)

lemma pose_score_bounds: "0 \<le> pose_score t r \<and> pose_score t r \<le> 1"
  by (simp add: pose_score_def split: option.splits)


text \<open>The weighted sum is within the unit interval already: the clamp never cuts.\<close>

lemma weighted_sum_bounds:
  "0 \<le> 1 / 2 * character_score t r + 7 / 20 * style_score t r + 3 / 20 * pose_score t r
   \<and> 1 / 2 * character_score t r + 7 / 20 * style_score t r + 3 / 20 * pose_score t r \<le> 1"
  using character_score_bounds[of t r] style_score_bounds[of t r] pose_score_bounds[of t r]
  by simp









end
